theory Spec2Isabelle
  imports Main
begin

section \<open>JavaScript values and strings\<close>

text \<open>
  The library is TypeScript running on a JavaScript engine; its casts
  (\<open>as { email: string; ... }\<close>) check nothing at run time, so a parsed JSON body or
  a token-info answer is any JavaScript value. A number is kept by the two observations
  the handlers make of it: whether it is falsy (zero) and its \<open>String()\<close> rendering.
  A host object (an uploaded \<open>File\<close> in a form body) is kept by its rendering.
  Strings are lists of 8-bit characters: the code units of an HTTP header value.
\<close>

datatype jsval =
    JUndefined
  | JNull
  | JBool bool
  | JNum bool string
  | JStr string
  | JArr "jsval list"
  | JObj "(string \<times> jsval) list"
  | JHost string

text \<open>Truthiness, as tested by \<open>if (v)\<close>, \<open>!v\<close> and \<open>v || w\<close>.\<close>

fun truthy :: "jsval \<Rightarrow> bool" where
  "truthy JUndefined = False"
| "truthy JNull = False"
| "truthy (JBool b) = b"
| "truthy (JNum z t) = (\<not> z)"
| "truthy (JStr s) = (s \<noteq> [])"
| "truthy (JArr xs) = True"
| "truthy (JObj kvs) = True"
| "truthy (JHost t) = True"

fun js_join :: "string list \<Rightarrow> string" where
  "js_join [] = []"
| "js_join [x] = x"
| "js_join (x # y # ys) = x @ '','' @ js_join (y # ys)"

text \<open>String conversion, as a template literal \<open>`${v}`\<close> performs it.\<close>

fun js_to_string :: "jsval \<Rightarrow> string" where
  "js_to_string JUndefined = ''undefined''"
| "js_to_string JNull = ''null''"
| "js_to_string (JBool b) = (if b then ''true'' else ''false'')"
| "js_to_string (JNum z t) = t"
| "js_to_string (JStr s) = s"
| "js_to_string (JArr xs) =
     js_join (map (\<lambda>x. if x = JUndefined \<or> x = JNull then [] else js_to_string x) xs)"
| "js_to_string (JObj kvs) = ''[object Object]''"
| "js_to_string (JHost t) = t"

text \<open>
  Reading a property: \<open>v.k\<close> throws a TypeError when \<open>v\<close> is \<open>null\<close> or
  \<open>undefined\<close> (\<open>nullish\<close>); otherwise \<open>js_prop\<close> gives the value, \<open>undefined\<close>
  for a missing key and for the keys the handlers read (email, name, sessionID) on a
  primitive or an array. The handlers read properties of parsed JSON only, never of a
  host object.
\<close>

definition nullish :: "jsval \<Rightarrow> bool" where
  "nullish v = (v = JUndefined \<or> v = JNull)"

fun js_prop :: "jsval \<Rightarrow> string \<Rightarrow> jsval" where
  "js_prop (JObj kvs) k = (case map_of kvs k of Some v \<Rightarrow> v | None \<Rightarrow> JUndefined)"
| "js_prop v k = JUndefined"

text \<open>\<open>s.split(d)\<close> for a one-character separator: never empty, \<open>''.split(d) = ['']\<close>.\<close>

fun js_split :: "char \<Rightarrow> string \<Rightarrow> string list" where
  "js_split d [] = [[]]"
| "js_split d (c # cs) =
     (let r = js_split d cs in if c = d then [] # r else (c # hd r) # tl r)"

text \<open>
  \<open>s.trim()\<close>: the white space and line terminators of ECMAScript that fit in 8 bits
  (TAB, LF, VT, FF, CR, SP, NBSP) are removed at both ends.
\<close>

definition js_space :: "char \<Rightarrow> bool" where
  "js_space c = (c \<in> set [CHR 0x09, CHR 0x0A, CHR 0x0B, CHR 0x0C, CHR 0x0D, CHR 0x20, CHR 0xA0])"

definition js_trim :: "string \<Rightarrow> string" where
  "js_trim s = rev (dropWhile js_space (rev (dropWhile js_space s)))"

definition startsWith :: "string \<Rightarrow> string \<Rightarrow> bool" where
  "startsWith s p = (take (length p) s = p)"

text \<open>\<open>xs[i]\<close>: \<open>undefined\<close> out of range.\<close>

definition js_index :: "string list \<Rightarrow> nat \<Rightarrow> jsval" where
  "js_index xs i = (if i < length xs then JStr (xs ! i) else JUndefined)"

section \<open>Data model (types.ts)\<close>

text \<open>
  \<open>SessionData = ValidSessionData | InvalidSessionData\<close>, tagged by \<open>signedIn\<close>.
  The fields of \<open>Valid\<close> are sessionId, name, email and credential, in this order;
  \<open>Invalid\<close> carries the optional error.
\<close>

datatype session_data =
    Valid jsval jsval jsval jsval
  | Invalid "string option"

fun signedIn :: "session_data \<Rightarrow> bool" where
  "signedIn (Valid i n e c) = True"
| "signedIn (Invalid e) = False"

text \<open>An awaited call either returns or throws (rejects).\<close>

datatype 'a outcome = Threw string | Returned 'a

text \<open>
  \<open>options.sessionStore\<close>: the host's store, with state \<open>'st\<close>. Each operation may throw
  and may change the state; \<open>delete\<close> is an optional capability. A \<open>get\<close> that
  returns a falsy value (\<open>undefined\<close>, \<open>null\<close>) is \<open>None\<close>.
\<close>

record 'st session_store =
  store_get :: "jsval \<Rightarrow> 'st \<Rightarrow> session_data option outcome \<times> 'st"
  store_put :: "session_data \<Rightarrow> 'st \<Rightarrow> unit outcome \<times> 'st"
  store_delete :: "(jsval \<Rightarrow> 'st \<Rightarrow> unit outcome \<times> 'st) option"

datatype mode = Livemode | Testmode

record 'st options =
  clientId :: string
  callbackUrl :: string
  sessionStore :: "'st session_store"
  cookieName :: "string option"
  cookieDomain :: "string option"
  sessionDurationSeconds :: "int option"
  renderSignInPage :: "(string \<Rightarrow> string \<Rightarrow> string option) option"
  mode :: mode

text \<open>
  What a handler reads of the Hono context \<open>c\<close>: the raw Cookie header
  (\<open>c.req.header('cookie')\<close>), Hono's \<open>getCookie(c, name)\<close>, the JSON body
  (\<open>c.req.json()\<close>, which throws on a body that does not parse) and the form body
  (\<open>c.req.parseBody()\<close>). Hono's parsers are not part of this repository.
\<close>

record request =
  cookie_header :: "string option"
  getCookie :: "string \<Rightarrow> string option"
  req_json :: "jsval outcome"
  req_parseBody :: "(string \<times> jsval) list outcome"

text \<open>The platform: \<open>fetch\<close>, \<open>crypto.randomUUID()\<close>, \<open>Date.now()\<close>.\<close>

datatype fetch_result = FetchThrew | FetchResponse nat "jsval outcome"

record platform =
  fetch :: "string \<Rightarrow> fetch_result"
  randomUUID :: string
  date_now :: nat

text \<open>
  Responses, and the Set-Cookie effect a handler leaves on them: a raw header set with
  \<open>c.header('Set-Cookie', _)\<close>, or a cookie handed to Hono's \<open>setCookie\<close> with its
  options. Hono's response builders (\<open>c.json\<close>, \<open>c.html\<close>, \<open>c.text\<close>,
  \<open>c.redirect\<close>), \<open>c.header\<close> and \<open>setCookie\<close> are taken to build the response
  without throwing.
\<close>

record cookie_options =
  httpOnly :: bool
  sameSite :: string
  path :: string
  maxAge :: int
  domain :: "string option"

datatype set_cookie =
    HeaderSetCookie string
  | HonoSetCookie string string cookie_options

datatype json_payload =
    AlreadySignedIn session_data
  | SignedIn session_data
  | ErrorPayload string

datatype html_page =
    TestSigninForm nat
  | RenderedSignInPage string
  | GoogleSignInButton string string

datatype body = JsonBody json_payload | HtmlBody html_page | TextBody string | NoBody

record response =
  status :: nat
  body :: body
  location :: "string option"
  set_cookie :: "set_cookie option"

definition c_json :: "set_cookie option \<Rightarrow> json_payload \<Rightarrow> nat \<Rightarrow> response" where
  "c_json hdr payload st = \<lparr>status = st, body = JsonBody payload, location = None, set_cookie = hdr\<rparr>"

definition c_html :: "set_cookie option \<Rightarrow> html_page \<Rightarrow> response" where
  "c_html hdr page = \<lparr>status = 200, body = HtmlBody page, location = None, set_cookie = hdr\<rparr>"

definition c_text :: "set_cookie option \<Rightarrow> string \<Rightarrow> response" where
  "c_text hdr t = \<lparr>status = 200, body = TextBody t, location = None, set_cookie = hdr\<rparr>"

definition c_redirect :: "set_cookie option \<Rightarrow> string \<Rightarrow> response" where
  "c_redirect hdr loc = \<lparr>status = 302, body = NoBody, location = Some loc, set_cookie = hdr\<rparr>"

text \<open>
  \<open>c.header(name, value)\<close> hands the value to the platform's \<open>Headers\<close> object, which
  throws a TypeError on a value that contains NUL, LF or CR. (The white space that
  \<open>Headers\<close> first removes at both ends does not matter for the values set here:
  they begin and end with other characters.)
\<close>

definition header_value_ok :: "string \<Rightarrow> bool" where
  "header_value_ok v = (CHR 0x00 \<notin> set v \<and> CHR 0x0A \<notin> set v \<and> CHR 0x0D \<notin> set v)"

text \<open>
  What running an operation gives: the response it returns (or, for the middleware, the
  value it stores with \<open>c.set('session', _)\<close>) or the exception that leaves it, the
  store's state afterwards, and the store calls it made, in order.
\<close>

datatype store_call = CallGet jsval | CallPut session_data | CallDelete jsval

record ('a, 'st) result =
  returned :: "'a outcome"
  store_after :: 'st
  calls :: "store_call list"

section \<open>TestmodeAuthImplementation (testmode.tsx)\<close>

definition TEST_SESSION_ID :: string where
  "TEST_SESSION_ID = ''testmode-session''"

definition testmode_sessionMiddlewareImpl ::
  "request \<Rightarrow> 'st options \<Rightarrow> 'st \<Rightarrow> (session_data, 'st) result" where
  "testmode_sessionMiddlewareImpl c options st =
    (let cookieHeader = cookie_header c;
         sessionId =
           (case cookieHeader of
              None \<Rightarrow> JStr TEST_SESSION_ID
            | Some h \<Rightarrow>
                if h = [] then JStr TEST_SESSION_ID
                else
                  (let cookies = map js_trim (js_split CHR '';'' h) in
                   case find (\<lambda>cookie. startsWith cookie ''testmode-session-id='') cookies of
                     None \<Rightarrow> JStr TEST_SESSION_ID
                   | Some sessionCookie \<Rightarrow>
                       if sessionCookie = [] then JStr TEST_SESSION_ID
                       else js_index (js_split CHR ''='' sessionCookie) 1))
     in case store_get (sessionStore options) sessionId st of
          (Returned session, st') \<Rightarrow>
            \<lparr>returned = Returned (case session of
                                     Some s \<Rightarrow> s
                                   | None \<Rightarrow> Invalid (Some ''No test session'')),
             store_after = st', calls = [CallGet sessionId]\<rparr>
        | (Threw err, st') \<Rightarrow>
            \<lparr>returned = Returned (Invalid (Some ''Session store error'')),
             store_after = st', calls = [CallGet sessionId]\<rparr>)"

definition testmode_signinImpl ::
  "platform \<Rightarrow> request \<Rightarrow> 'st options \<Rightarrow> 'st \<Rightarrow> (response, 'st) result" where
  "testmode_signinImpl w c options st =
    (let cookieHeader = cookie_header c;
         sessionId =
           (case cookieHeader of
              None \<Rightarrow> JStr TEST_SESSION_ID
            | Some h \<Rightarrow>
                if h = [] then JStr TEST_SESSION_ID
                else
                  (let cookies = map js_trim (js_split CHR '';'' h) in
                   case find (\<lambda>cookie. startsWith cookie ''testmode-session-id='') cookies of
                     None \<Rightarrow> JStr TEST_SESSION_ID
                   | Some sessionCookie \<Rightarrow>
                       if sessionCookie = [] then JStr TEST_SESSION_ID
                       else js_index (js_split CHR ''='' sessionCookie) 1))
     in case store_get (sessionStore options) sessionId st of
          (Returned (Some currentSession), st') \<Rightarrow>
            \<lparr>returned = Returned (c_json None (AlreadySignedIn currentSession) 200),
             store_after = st', calls = [CallGet sessionId]\<rparr>
        | (Returned None, st') \<Rightarrow>
            \<lparr>returned = Returned (c_html None (TestSigninForm (date_now w))),
             store_after = st', calls = [CallGet sessionId]\<rparr>
        | (Threw err, st') \<Rightarrow>
            \<lparr>returned = Returned (c_html None (TestSigninForm (date_now w))),
             store_after = st', calls = [CallGet sessionId]\<rparr>)"

text \<open>
  In \<open>testSigninImpl\<close> the \<open>try\<close> around \<open>sessionStore.put\<close> also holds the
  \<open>c.header('Set-Cookie', _)\<close> call: a cookie value that \<open>Headers\<close> rejects is
  answered by the \<open>catch\<close>, after the record was stored.
\<close>

definition testmode_testSigninImpl ::
  "request \<Rightarrow> 'st options \<Rightarrow> 'st \<Rightarrow> (response, 'st) result" where
  "testmode_testSigninImpl c options st =
    (case req_json c of
       Threw err \<Rightarrow>
         \<lparr>returned = Returned (c_json None (ErrorPayload ''Invalid JSON body'') 400),
          store_after = st, calls = []\<rparr>
     | Returned data \<Rightarrow>
         if nullish data then
           \<lparr>returned = Threw ''TypeError'', store_after = st, calls = []\<rparr>
         else if \<not> truthy (js_prop data ''email'') \<or> \<not> truthy (js_prop data ''name'') then
           \<lparr>returned = Returned (c_json None (ErrorPayload ''email and name are required'') 400),
            store_after = st, calls = []\<rparr>
         else
           (let sessionId =
                  (if truthy (js_prop data ''sessionID'') then js_prop data ''sessionID''
                   else JStr TEST_SESSION_ID);
                session = Valid sessionId (js_prop data ''name'') (js_prop data ''email'')
                            (JStr ''test-credential'')
            in case store_put (sessionStore options) session st of
                 (Returned u, st') \<Rightarrow>
                   if truthy (js_prop data ''sessionID'') then
                     (let cookie = ''testmode-session-id='' @ js_to_string sessionId
                                     @ ''; Path=/; SameSite=Lax''
                      in if header_value_ok cookie then
                           \<lparr>returned = Returned (c_json (Some (HeaderSetCookie cookie))
                                                   (SignedIn session) 200),
                            store_after = st', calls = [CallPut session]\<rparr>
                         else
                           \<lparr>returned = Returned (c_json None
                                                   (ErrorPayload ''Failed to store session'') 500),
                            store_after = st', calls = [CallPut session]\<rparr>)
                   else
                     \<lparr>returned = Returned (c_json None (SignedIn session) 200),
                      store_after = st', calls = [CallPut session]\<rparr>
               | (Threw err, st') \<Rightarrow>
                   \<lparr>returned = Returned (c_json None (ErrorPayload ''Failed to store session'') 500),
                    store_after = st', calls = [CallPut session]\<rparr>))"

definition testmode_callbackImpl ::
  "request \<Rightarrow> 'st options \<Rightarrow> 'st \<Rightarrow> (response, 'st) result" where
  "testmode_callbackImpl c options st =
    \<lparr>returned = Returned (c_redirect None ''/''), store_after = st, calls = []\<rparr>"

definition testmode_signoutImpl ::
  "request \<Rightarrow> 'st options \<Rightarrow> 'st \<Rightarrow> (response, 'st) result" where
  "testmode_signoutImpl c options st =
    (let cookieHeader = cookie_header c;
         sessionId =
           (case cookieHeader of
              None \<Rightarrow> JStr TEST_SESSION_ID
            | Some h \<Rightarrow>
                if h = [] then JStr TEST_SESSION_ID
                else
                  (let cookies = map js_trim (js_split CHR '';'' h) in
                   case find (\<lambda>cookie. startsWith cookie ''testmode-session-id='') cookies of
                     None \<Rightarrow> JStr TEST_SESSION_ID
                   | Some sessionCookie \<Rightarrow>
                       if sessionCookie = [] then JStr TEST_SESSION_ID
                       else js_index (js_split CHR ''='' sessionCookie) 1));
         clear =
           (if sessionId \<noteq> JStr TEST_SESSION_ID
            then Some (HeaderSetCookie ''testmode-session-id=; Path=/; SameSite=Lax; Max-Age=0'')
            else None)
     in case store_delete (sessionStore options) of
          None \<Rightarrow>
            \<lparr>returned = Returned (c_redirect clear ''/''), store_after = st, calls = []\<rparr>
        | Some del \<Rightarrow>
            (case del sessionId st of
               (Returned u, st') \<Rightarrow>
                 \<lparr>returned = Returned (c_redirect clear ''/''),
                  store_after = st', calls = [CallDelete sessionId]\<rparr>
             | (Threw err, st') \<Rightarrow>
                 \<lparr>returned = Returned (c_redirect None ''/''),
                  store_after = st', calls = [CallDelete sessionId]\<rparr>))"

section \<open>LivemodeAuthImplementation (livemode.tsx)\<close>

text \<open>
  \<open>verifyCredential\<close>: the token-info call. A fetch that throws, a response that is not
  2xx (\<open>!response.ok\<close>) and a body that does not parse all give \<open>null\<close>.
\<close>

definition verifyCredential :: "platform \<Rightarrow> jsval \<Rightarrow> jsval" where
  "verifyCredential w credential =
    (case fetch w (''https://oauth2.googleapis.com/tokeninfo?id_token='' @ js_to_string credential) of
       FetchThrew \<Rightarrow> JNull
     | FetchResponse code json \<Rightarrow>
         if \<not> (200 \<le> code \<and> code \<le> 299) then JNull
         else (case json of Threw err \<Rightarrow> JNull | Returned v \<Rightarrow> v))"

definition livemode_sessionMiddlewareImpl ::
  "request \<Rightarrow> 'st options \<Rightarrow> 'st \<Rightarrow> (session_data, 'st) result" where
  "livemode_sessionMiddlewareImpl c options st =
    (let COOKIE_NAME =
           (case cookieName options of
              Some n \<Rightarrow> if n \<noteq> [] then n else ''auth_session_cookie''
            | None \<Rightarrow> ''auth_session_cookie'')
     in case getCookie c COOKIE_NAME of
          Some sessionId \<Rightarrow>
            if sessionId \<noteq> [] then
              (case store_get (sessionStore options) (JStr sessionId) st of
                 (Returned session, st') \<Rightarrow>
                   \<lparr>returned = Returned (case session of
                                            Some s \<Rightarrow> s
                                          | None \<Rightarrow> Invalid (Some ''Session not found'')),
                    store_after = st', calls = [CallGet (JStr sessionId)]\<rparr>
               | (Threw err, st') \<Rightarrow>
                   \<lparr>returned = Returned (Invalid (Some ''Session store error'')),
                    store_after = st', calls = [CallGet (JStr sessionId)]\<rparr>)
            else
              \<lparr>returned = Returned (Invalid (Some ''No session cookie'')),
               store_after = st, calls = []\<rparr>
        | None \<Rightarrow>
            \<lparr>returned = Returned (Invalid (Some ''No session cookie'')),
             store_after = st, calls = []\<rparr>)"

text \<open>The page \<open>signinImpl\<close> renders when no signed-in session is found.\<close>

definition signin_page :: "'st options \<Rightarrow> html_page" where
  "signin_page options =
    (case renderSignInPage options of
       Some render \<Rightarrow>
         RenderedSignInPage
           (case render (clientId options) (callbackUrl options) of
              Some page \<Rightarrow> page
            | None \<Rightarrow> [])
     | None \<Rightarrow> GoogleSignInButton (clientId options) (callbackUrl options))"

definition livemode_signinImpl ::
  "request \<Rightarrow> 'st options \<Rightarrow> 'st \<Rightarrow> (response, 'st) result" where
  "livemode_signinImpl c options st =
    (let COOKIE_NAME =
           (case cookieName options of
              Some n \<Rightarrow> if n \<noteq> [] then n else ''auth_session_cookie''
            | None \<Rightarrow> ''auth_session_cookie'')
     in case getCookie c COOKIE_NAME of
          Some sessionId \<Rightarrow>
            if sessionId \<noteq> [] then
              (case store_get (sessionStore options) (JStr sessionId) st of
                 (Threw err, st') \<Rightarrow>
                   \<lparr>returned = Threw err, store_after = st', calls = [CallGet (JStr sessionId)]\<rparr>
               | (Returned session, st') \<Rightarrow>
                   (case session of
                      Some s \<Rightarrow>
                        if signedIn s then
                          \<lparr>returned = Returned (c_redirect None ''/''),
                           store_after = st', calls = [CallGet (JStr sessionId)]\<rparr>
                        else
                          \<lparr>returned = Returned (c_html None (signin_page options)),
                           store_after = st', calls = [CallGet (JStr sessionId)]\<rparr>
                    | None \<Rightarrow>
                        \<lparr>returned = Returned (c_html None (signin_page options)),
                         store_after = st', calls = [CallGet (JStr sessionId)]\<rparr>))
            else
              \<lparr>returned = Returned (c_html None (signin_page options)),
               store_after = st, calls = []\<rparr>
        | None \<Rightarrow>
            \<lparr>returned = Returned (c_html None (signin_page options)),
             store_after = st, calls = []\<rparr>)"

definition livemode_callbackImpl ::
  "platform \<Rightarrow> request \<Rightarrow> 'st options \<Rightarrow> 'st \<Rightarrow> (response, 'st) result" where
  "livemode_callbackImpl w c options st =
    (let COOKIE_NAME =
           (case cookieName options of
              Some n \<Rightarrow> if n \<noteq> [] then n else ''auth_session_cookie''
            | None \<Rightarrow> ''auth_session_cookie'');
         COOKIE_DOMAIN = cookieDomain options;
         SESSION_DURATION =
           (case sessionDurationSeconds options of
              Some d \<Rightarrow> if d \<noteq> 0 then d else 3600 * 24 * 365
            | None \<Rightarrow> 3600 * 24 * 365)
     in case req_parseBody c of
          Threw err \<Rightarrow> \<lparr>returned = Threw err, store_after = st, calls = []\<rparr>
        | Returned data \<Rightarrow>
            (let data_credential =
                   (case map_of data ''credential'' of Some v \<Rightarrow> v | None \<Rightarrow> JUndefined);
                 tokenInfo = verifyCredential w data_credential
             in if truthy tokenInfo then
                  (let session = Valid (JStr (randomUUID w)) (js_prop tokenInfo ''name'')
                                   (js_prop tokenInfo ''email'') data_credential
                   in case store_put (sessionStore options) session st of
                        (Threw err, st') \<Rightarrow>
                          \<lparr>returned = Threw err, store_after = st', calls = [CallPut session]\<rparr>
                      | (Returned u, st') \<Rightarrow>
                          \<lparr>returned = Returned (c_redirect
                             (Some (HonoSetCookie COOKIE_NAME (randomUUID w)
                                \<lparr>httpOnly = True, sameSite = ''Lax'', path = ''/'',
                                 maxAge = SESSION_DURATION,
                                 domain = (case COOKIE_DOMAIN of
                                             Some d \<Rightarrow> if d \<noteq> [] then Some d else None
                                           | None \<Rightarrow> None)\<rparr>))
                             ''/''),
                           store_after = st', calls = [CallPut session]\<rparr>)
                else
                  \<lparr>returned = Returned (c_text None ''Invalid Google Sign-In''),
                   store_after = st, calls = []\<rparr>))"

definition livemode_signoutImpl ::
  "request \<Rightarrow> 'st options \<Rightarrow> 'st \<Rightarrow> (response, 'st) result" where
  "livemode_signoutImpl c options st =
    (let COOKIE_NAME =
           (case cookieName options of
              Some n \<Rightarrow> if n \<noteq> [] then n else ''auth_session_cookie''
            | None \<Rightarrow> ''auth_session_cookie'');
         COOKIE_DOMAIN = cookieDomain options
     in \<lparr>returned = Returned (c_redirect
           (Some (HonoSetCookie COOKIE_NAME []
              \<lparr>httpOnly = True, sameSite = ''Lax'', path = ''/'', maxAge = 0,
               domain = (case COOKIE_DOMAIN of
                           Some d \<Rightarrow> if d \<noteq> [] then Some d else None
                         | None \<Rightarrow> None)\<rparr>))
           ''/''),
         store_after = st, calls = []\<rparr>)"

section \<open>Strategy dispatch (index.tsx)\<close>

text \<open>
  \<open>optionsMiddleware\<close> picks the implementation from \<open>options.mode\<close>; each route hands
  the request to it. Only the testmode implementation has \<open>testSigninImpl\<close>.
\<close>

definition sessionMiddleware ::
  "request \<Rightarrow> 'st options \<Rightarrow> 'st \<Rightarrow> (session_data, 'st) result" where
  "sessionMiddleware c options st =
    (if mode options = Testmode then testmode_sessionMiddlewareImpl c options st
     else livemode_sessionMiddlewareImpl c options st)"

definition route_signin ::
  "platform \<Rightarrow> request \<Rightarrow> 'st options \<Rightarrow> 'st \<Rightarrow> (response, 'st) result" where
  "route_signin w c options st =
    (if mode options = Testmode then testmode_signinImpl w c options st
     else livemode_signinImpl c options st)"

definition route_test_signin ::
  "request \<Rightarrow> 'st options \<Rightarrow> 'st \<Rightarrow> (response, 'st) result" where
  "route_test_signin c options st =
    (if mode options = Testmode then testmode_testSigninImpl c options st
     else \<lparr>returned = Returned (c_json None (ErrorPayload ''Testmode not enabled'') 400),
           store_after = st, calls = []\<rparr>)"

definition route_callback ::
  "platform \<Rightarrow> request \<Rightarrow> 'st options \<Rightarrow> 'st \<Rightarrow> (response, 'st) result" where
  "route_callback w c options st =
    (if mode options = Testmode then testmode_callbackImpl c options st
     else livemode_callbackImpl w c options st)"

definition route_signout ::
  "request \<Rightarrow> 'st options \<Rightarrow> 'st \<Rightarrow> (response, 'st) result" where
  "route_signout c options st =
    (if mode options = Testmode then testmode_signoutImpl c options st
     else livemode_signoutImpl c options st)"

section \<open>Stores used by the tests\<close>

text \<open>
  The in-memory store of test/testmode.test.ts: a \<open>Map\<close> from \<open>sessionId\<close> to the record
  (\<open>Map\<close> keys are compared as values, without string conversion).
\<close>

definition mapStore :: "(jsval \<rightharpoonup> session_data) session_store" where
  "mapStore =
    \<lparr>store_get = (\<lambda>k m. (Returned (m k), m)),
     store_put = (\<lambda>d m. (Returned (),
                    (case d of Valid i n e cr \<Rightarrow> m(i \<mapsto> d) | Invalid er \<Rightarrow> m(JUndefined \<mapsto> d)))),
     store_delete = Some (\<lambda>k m. (Returned (), m(k := None)))\<rparr>"

text \<open>A store whose every call rejects, as \<open>mockRejectedValue\<close> sets up in the tests.\<close>

definition rejectingStore :: "(jsval \<rightharpoonup> session_data) session_store" where
  "rejectingStore =
    \<lparr>store_get = (\<lambda>k m. (Threw ''Session store error'', m)),
     store_put = (\<lambda>d m. (Threw ''Session store error'', m)),
     store_delete = Some (\<lambda>k m. (Threw ''Session store error'', m))\<rparr>"

definition test_options :: "mode \<Rightarrow> 'st session_store \<Rightarrow> 'st options" where
  "test_options md store =
    \<lparr>clientId = ''test-client-id'', callbackUrl = ''http://localhost:3000/auth/callback'',
     sessionStore = store, cookieName = None, cookieDomain = None,
     sessionDurationSeconds = None, renderSignInPage = None, mode = md\<rparr>"

definition test_request :: "string option \<Rightarrow> request" where
  "test_request h =
    \<lparr>cookie_header = h, getCookie = (\<lambda>n. None), req_json = Threw ''SyntaxError'',
     req_parseBody = Returned []\<rparr>"

definition test_platform :: platform where
  "test_platform = \<lparr>fetch = (\<lambda>url. FetchThrew), randomUUID = ''uuid-1'', date_now = 0\<rparr>"

section \<open>Session scoping: how the testmode operations resolve the session id\<close>

text \<open>
  Names for what the three inlined copies of the resolution compute. The scoping cookie
  of a Cookie header is the first of its \<open>;\<close>-separated pairs, trimmed, that starts with
  \<open>testmode-session-id=\<close>; its value is the text after that prefix.
\<close>

definition scoping_cookie :: "string option \<Rightarrow> string option" where
  "scoping_cookie h =
    (case h of
       None \<Rightarrow> None
     | Some t \<Rightarrow> find (\<lambda>cookie. startsWith cookie ''testmode-session-id='')
                  (map js_trim (js_split CHR '';'' t)))"

definition cookie_value :: "string \<Rightarrow> string" where
  "cookie_value pair = drop (length ''testmode-session-id='') pair"

text \<open>
  The resolution as the specification words it: the value of the scoping cookie when the
  cookie appears in the header, otherwise the default id.
\<close>

definition spec_session_id :: "string option \<Rightarrow> jsval" where
  "spec_session_id h =
    (case scoping_cookie h of
       Some pair \<Rightarrow> JStr (cookie_value pair)
     | None \<Rightarrow> JStr TEST_SESSION_ID)"

text \<open>
  The resolution as the code performs it: \<open>sessionCookie.split('=')[1]\<close> keeps the
  value only up to its first \<open>=\<close>.
\<close>

definition resolved_session_id :: "string option \<Rightarrow> jsval" where
  "resolved_session_id h =
    (case scoping_cookie h of
       Some pair \<Rightarrow> JStr (takeWhile (\<lambda>ch. ch \<noteq> CHR ''='') (cookie_value pair))
     | None \<Rightarrow> JStr TEST_SESSION_ID)"


text \<open>A POST /test/signin request whose JSON body parses to \<open>data\<close>, without cookies.\<close>

definition signin_request :: "jsval \<Rightarrow> request" where
  "signin_request data =
    \<lparr>cookie_header = None, getCookie = (\<lambda>n. None), req_json = Returned data,
     req_parseBody = Returned []\<rparr>"

text \<open>
  Names for what the livemode operations compute inline: the configured cookie name
  (\<open>options.cookieName || 'auth_session_cookie'\<close>), the \<open>credential\<close> field of the
  parsed form body, and the token-info URL that \<open>verifyCredential\<close> fetches.
\<close>

definition session_cookie_name :: "'st options \<Rightarrow> string" where
  "session_cookie_name options =
    (case cookieName options of
       Some n \<Rightarrow> if n \<noteq> [] then n else ''auth_session_cookie''
     | None \<Rightarrow> ''auth_session_cookie'')"

definition form_credential :: "(string \<times> jsval) list \<Rightarrow> jsval" where
  "form_credential data = (case map_of data ''credential'' of Some v \<Rightarrow> v | None \<Rightarrow> JUndefined)"

definition tokeninfo_url :: "jsval \<Rightarrow> string" where
  "tokeninfo_url cred = ''https://oauth2.googleapis.com/tokeninfo?id_token='' @ js_to_string cred"

text \<open>
  Requests and platforms of the livemode tests: a request whose session cookie
  \<open>auth_session_cookie\<close> has the given value, a callback request posting a credential,
  and a platform whose token-info call has the given result.
\<close>

definition live_request :: "string \<Rightarrow> request" where
  "live_request sid =
    \<lparr>cookie_header = Some (''auth_session_cookie='' @ sid),
     getCookie = (\<lambda>n. if n = ''auth_session_cookie'' then Some sid else None),
     req_json = Threw ''SyntaxError'', req_parseBody = Returned []\<rparr>"

definition callback_request :: "string \<Rightarrow> request" where
  "callback_request cred =
    \<lparr>cookie_header = None, getCookie = (\<lambda>n. None), req_json = Threw ''SyntaxError'',
     req_parseBody = Returned [(''credential'', JStr cred)]\<rparr>"

definition tokeninfo_platform :: "fetch_result \<Rightarrow> platform" where
  "tokeninfo_platform r = \<lparr>fetch = (\<lambda>url. r), randomUUID = ''uuid-1'', date_now = 0\<rparr>"






section \<open>Facts about the string primitives\<close>

lemma js_split_nonempty: "js_split d s \<noteq> []"
  by (induction s) (simp_all add: Let_def)

lemma hd_js_split: "hd (js_split d s) = takeWhile (\<lambda>c. c \<noteq> d) s"
  by (induction s) (simp_all add: Let_def)

lemma js_split_append: "d \<notin> set a \<Longrightarrow> js_split d (a @ d # b) = a # js_split d b"
  by (induction a) (auto simp: Let_def)

lemma js_split_index1:
  assumes "d \<notin> set a"
  shows "js_index (js_split d (a @ d # b)) (Suc 0) = JStr (takeWhile (\<lambda>c. c \<noteq> d) b)"
proof -
  obtain x xs where sp: "js_split d b = x # xs"
    using js_split_nonempty [of d b] by (cases "js_split d b") auto
  have "x = takeWhile (\<lambda>c. c \<noteq> d) b"
    using hd_js_split [of d b] sp by simp
  then show ?thesis
    using assms sp by (simp add: js_split_append js_index_def)
qed

lemma startsWith_split:
  assumes "startsWith p q"
  shows "q @ drop (length q) p = p"
  using assms unfolding startsWith_def by (metis append_take_drop_id)

lemma session_cookie_id:
  assumes "startsWith p ''testmode-session-id=''"
  shows "js_index (js_split CHR ''='' p) (Suc 0)
           = JStr (takeWhile (\<lambda>c. c \<noteq> CHR ''='') (cookie_value p))"
proof -
  have p: "''testmode-session-id'' @ CHR ''='' # cookie_value p = p"
    using startsWith_split [OF assms] unfolding cookie_value_def by simp
  have "CHR ''='' \<notin> set ''testmode-session-id''" by simp
  from js_split_index1 [OF this, of "cookie_value p"]
  show ?thesis unfolding p .
qed

lemma find_startsWith_nonempty:
  "find (\<lambda>cookie. startsWith cookie ''testmode-session-id='') xs = Some p \<Longrightarrow>
     startsWith p ''testmode-session-id='' \<and> p \<noteq> []"
  by (auto simp: find_Some_iff startsWith_def)

text \<open>The inlined resolution, as it stands in each of the three operations.\<close>

lemma resolve_inline:
  "(case h of
      None \<Rightarrow> JStr TEST_SESSION_ID
    | Some t \<Rightarrow>
        if t = [] then JStr TEST_SESSION_ID
        else
          (let cookies = map js_trim (js_split CHR '';'' t) in
           case find (\<lambda>cookie. startsWith cookie ''testmode-session-id='') cookies of
             None \<Rightarrow> JStr TEST_SESSION_ID
           | Some sessionCookie \<Rightarrow>
               if sessionCookie = [] then JStr TEST_SESSION_ID
               else js_index (js_split CHR ''='' sessionCookie) 1))
   = resolved_session_id h"
proof (cases h)
  case None
  then show ?thesis by (simp add: resolved_session_id_def scoping_cookie_def)
next
  case (Some t)
  show ?thesis
  proof (cases "t = []")
    case True
    with Some show ?thesis
      by (simp add: resolved_session_id_def scoping_cookie_def js_trim_def startsWith_def)
  next
    case False
    show ?thesis
    proof (cases "find (\<lambda>cookie. startsWith cookie ''testmode-session-id='')
                    (map js_trim (js_split CHR '';'' t))")
      case None
      with Some False show ?thesis
        by (simp add: resolved_session_id_def scoping_cookie_def)
    next
      case (Some p)
      note fp = find_startsWith_nonempty [OF Some]
      with Some \<open>h = Some t\<close> False show ?thesis
        by (simp add: resolved_session_id_def scoping_cookie_def session_cookie_id)
    qed
  qed
qed

lemma testmode_middleware_calls:
  "calls (testmode_sessionMiddlewareImpl c options st)
     = [CallGet (resolved_session_id (cookie_header c))]"
  unfolding testmode_sessionMiddlewareImpl_def resolve_inline
  by (simp add: Let_def split: prod.splits outcome.splits)

lemma testmode_signin_calls:
  "calls (testmode_signinImpl w c options st)
     = [CallGet (resolved_session_id (cookie_header c))]"
  unfolding testmode_signinImpl_def resolve_inline
  by (simp add: Let_def split: prod.splits outcome.splits option.splits)

lemma testmode_signout_calls:
  "calls (testmode_signoutImpl c options st)
     = (if store_delete (sessionStore options) = None then []
        else [CallDelete (resolved_session_id (cookie_header c))])"
  unfolding testmode_signoutImpl_def resolve_inline
  by (simp add: Let_def split: prod.splits outcome.splits option.splits)

section \<open>Facts about trimming and the echoed cookie\<close>








section \<open>Facts about the test sign-in handler\<close>



section \<open>Session scoping: one resolution for every store access\<close>

text \<open>
  C1 (as amended). In testmode the session middleware, render-signin and handle-signout
  address the store under one and the same key for every request: the value of the first
  \<open>testmode-session-id\<close> cookie of the Cookie header cut at its first \<open>=\<close> (the whole
  value when it has none), and the default id \<open>testmode-session\<close> when no such cookie
  appears. The middleware and signin make one \<open>get\<close> under that key; signout makes one
  \<open>delete\<close> under it when the store has a \<open>delete\<close>, and no store call otherwise.
\<close>

theorem testmode_session_id_uniform:
  "calls (testmode_sessionMiddlewareImpl c options st)
     = [CallGet (resolved_session_id (cookie_header c))]
   \<and> calls (testmode_signinImpl w c options st)
     = [CallGet (resolved_session_id (cookie_header c))]
   \<and> calls (testmode_signoutImpl c options st)
     = (if store_delete (sessionStore options) = None then []
        else [CallDelete (resolved_session_id (cookie_header c))])"
  by (simp only: testmode_middleware_calls testmode_signin_calls testmode_signout_calls)

theorem testmode_session_id_uniform_witness:
  "calls (testmode_sessionMiddlewareImpl
            (test_request (Some ''a=1; testmode-session-id=abc; x=2''))
            (test_options Testmode mapStore) Map.empty)
     = [CallGet (JStr ''abc'')]
   \<and> calls (testmode_signinImpl test_platform
            (test_request (Some ''a=1; testmode-session-id=abc; x=2''))
            (test_options Testmode mapStore) Map.empty)
     = [CallGet (JStr ''abc'')]
   \<and> calls (testmode_signoutImpl
            (test_request (Some ''a=1; testmode-session-id=abc; x=2''))
            (test_options Testmode mapStore) Map.empty)
     = [CallDelete (JStr ''abc'')]"
proof -
  have r: "resolved_session_id (cookie_header (test_request (Some ''a=1; testmode-session-id=abc; x=2'')))
             = JStr ''abc''"
    by code_simp
  have d: "store_delete (sessionStore (test_options Testmode mapStore)) \<noteq> None"
    by (simp add: test_options_def mapStore_def)
  show ?thesis
    using testmode_session_id_uniform
      [of "test_request (Some ''a=1; testmode-session-id=abc; x=2'')"
          "test_options Testmode mapStore" Map.empty test_platform]
    by (simp only: r d if_False)
qed

text \<open>
  C1 as stated fails: for the header \<open>testmode-session-id=a=b\<close> the cookie's value is
  \<open>a=b\<close>, and the middleware looks the session up under \<open>a\<close>.
\<close>

theorem testmode_session_id_counterexample:
  "spec_session_id (Some ''testmode-session-id=a=b'') = JStr ''a=b''
   \<and> calls (testmode_sessionMiddlewareImpl (test_request (Some ''testmode-session-id=a=b''))
              (test_options Testmode mapStore) Map.empty)
       = [CallGet (JStr ''a'')]"
  by code_simp

section \<open>An empty scoping cookie\<close>

text \<open>
  C2 (as amended). When the scoping cookie of the Cookie header has an empty value
  (\<open>testmode-session-id=\<close>), the cookie counts as present: the middleware and
  render-signin take the empty string as the session id and look the session up under
  it, not under the default id \<open>testmode-session\<close>.
\<close>

theorem testmode_empty_cookie_value:
  "scoping_cookie (cookie_header c) = Some ''testmode-session-id='' \<Longrightarrow>
     calls (testmode_sessionMiddlewareImpl c options st) = [CallGet (JStr [])]
     \<and> calls (testmode_signinImpl w c options st) = [CallGet (JStr [])]
     \<and> JStr [] \<noteq> JStr TEST_SESSION_ID"
  by (simp add: testmode_middleware_calls testmode_signin_calls resolved_session_id_def
        cookie_value_def TEST_SESSION_ID_def)

theorem testmode_empty_cookie_value_witness:
  "calls (testmode_sessionMiddlewareImpl
            (test_request (Some ''testmode-session-id=; some-other-cookie=value''))
            (test_options Testmode mapStore) Map.empty) = [CallGet (JStr [])]
   \<and> calls (testmode_signinImpl test_platform
            (test_request (Some ''testmode-session-id=; some-other-cookie=value''))
            (test_options Testmode mapStore) Map.empty) = [CallGet (JStr [])]
   \<and> JStr [] \<noteq> JStr TEST_SESSION_ID"
proof -
  have h: "scoping_cookie (cookie_header
             (test_request (Some ''testmode-session-id=; some-other-cookie=value'')))
           = Some ''testmode-session-id=''"
    by code_simp
  show ?thesis
    by (rule testmode_empty_cookie_value [OF h])
qed

text \<open>
  C2 as stated fails: with a session stored under the default id, a request carrying
  \<open>testmode-session-id=\<close> is looked up under the empty string and resolves to
  \<open>No test session\<close>.
\<close>

theorem testmode_empty_cookie_value_counterexample:
  "store_get mapStore (JStr TEST_SESSION_ID)
      (Map.empty(JStr TEST_SESSION_ID \<mapsto>
         Valid (JStr TEST_SESSION_ID) (JStr ''Default User'') (JStr ''default@example.com'')
           (JStr ''test-credential'')))
     = (Returned (Some (Valid (JStr TEST_SESSION_ID) (JStr ''Default User'')
          (JStr ''default@example.com'') (JStr ''test-credential''))),
        Map.empty(JStr TEST_SESSION_ID \<mapsto>
         Valid (JStr TEST_SESSION_ID) (JStr ''Default User'') (JStr ''default@example.com'')
           (JStr ''test-credential'')))
   \<and> calls (testmode_sessionMiddlewareImpl (test_request (Some ''testmode-session-id=''))
        (test_options Testmode mapStore)
        (Map.empty(JStr TEST_SESSION_ID \<mapsto>
           Valid (JStr TEST_SESSION_ID) (JStr ''Default User'') (JStr ''default@example.com'')
             (JStr ''test-credential''))))
     = [CallGet (JStr [])]
   \<and> returned (testmode_sessionMiddlewareImpl (test_request (Some ''testmode-session-id=''))
        (test_options Testmode mapStore)
        (Map.empty(JStr TEST_SESSION_ID \<mapsto>
           Valid (JStr TEST_SESSION_ID) (JStr ''Default User'') (JStr ''default@example.com'')
             (JStr ''test-credential''))))
     = Returned (Invalid (Some ''No test session''))"
  by (simp add: mapStore_def testmode_sessionMiddlewareImpl_def test_request_def test_options_def
       TEST_SESSION_ID_def js_trim_def startsWith_def js_index_def js_space_def Let_def)

section \<open>Rejected test sign-in bodies\<close>

lemma test_signin_unparsable:
  "req_json c = Threw err \<Longrightarrow>
     testmode_testSigninImpl c options st
       = \<lparr>returned = Returned \<lparr>status = 400, body = JsonBody (ErrorPayload ''Invalid JSON body''),
                                 location = None, set_cookie = None\<rparr>,
          store_after = st, calls = []\<rparr>"
  by (simp add: testmode_testSigninImpl_def c_json_def)

lemma test_signin_missing_field:
  "req_json c = Returned data \<Longrightarrow> \<not> nullish data \<Longrightarrow>
     \<not> truthy (js_prop data ''email'') \<or> \<not> truthy (js_prop data ''name'') \<Longrightarrow>
     testmode_testSigninImpl c options st
       = \<lparr>returned = Returned \<lparr>status = 400,
                                 body = JsonBody (ErrorPayload ''email and name are required''),
                                 location = None, set_cookie = None\<rparr>,
          store_after = st, calls = []\<rparr>"
  by (auto simp: testmode_testSigninImpl_def c_json_def)

text \<open>
  C9: the body \<open>null\<close> parses as JSON and has neither \<open>email\<close> nor \<open>name\<close>, but
  reading \<open>data.email\<close> on it throws a TypeError outside every \<open>try\<close>: the handler
  gives no 400 response. (It still makes no store call.)
\<close>

theorem test_signin_null_body:
  "route_test_signin (signin_request JNull) (test_options Testmode mapStore) Map.empty
     = \<lparr>returned = Threw ''TypeError'', store_after = Map.empty, calls = []\<rparr>"
  by (simp add: route_test_signin_def testmode_testSigninImpl_def signin_request_def
        test_options_def nullish_def)

section \<open>Sign-out in testmode\<close>

text \<open>
  What testmode sign-out answers: always a redirect to \<open>/\<close>; the header that clears
  the scoping cookie is on it when the id in use is not the default one and the
  \<open>delete\<close> call, if one was made, did not throw.
\<close>

lemma testmode_signout_response:
  "returned (testmode_signoutImpl c options st)
     = Returned (c_redirect
         (if (\<exists>del err st'. store_delete (sessionStore options) = Some del
                \<and> del (resolved_session_id (cookie_header c)) st = (Threw err, st'))
          then None
          else if resolved_session_id (cookie_header c) \<noteq> JStr TEST_SESSION_ID
          then Some (HeaderSetCookie ''testmode-session-id=; Path=/; SameSite=Lax; Max-Age=0'')
          else None)
         ''/'')"
  unfolding testmode_signoutImpl_def resolve_inline
  by (auto simp: Let_def split: prod.splits outcome.splits option.splits)

text \<open>
  C8: with a custom session id in use and a store whose \<open>delete\<close> throws, sign-out
  redirects to \<open>/\<close> without the Set-Cookie header that clears the scoping cookie; with
  the in-memory store the same request clears it. The header is set inside the
  \<open>try\<close>, after the \<open>delete\<close>.
\<close>

theorem testmode_signout_delete_throws:
  "returned (testmode_signoutImpl (test_request (Some ''testmode-session-id=abc''))
       (test_options Testmode rejectingStore) Map.empty)
     = Returned \<lparr>status = 302, body = NoBody, location = Some ''/'', set_cookie = None\<rparr>
   \<and> calls (testmode_signoutImpl (test_request (Some ''testmode-session-id=abc''))
       (test_options Testmode rejectingStore) Map.empty)
     = [CallDelete (JStr ''abc'')]
   \<and> returned (testmode_signoutImpl (test_request (Some ''testmode-session-id=abc''))
       (test_options Testmode mapStore) Map.empty)
     = Returned \<lparr>status = 302, body = NoBody, location = Some ''/'',
          set_cookie = Some (HeaderSetCookie
                         ''testmode-session-id=; Path=/; SameSite=Lax; Max-Age=0'')\<rparr>
   \<and> calls (testmode_signoutImpl (test_request (Some ''testmode-session-id=abc''))
       (test_options Testmode mapStore) Map.empty)
     = [CallDelete (JStr ''abc'')]"
  by code_simp

section \<open>Session resolution in livemode\<close>

text \<open>
  C7 (as amended). In livemode the session middleware sets the session value by this case
  analysis on the configured cookie. When the cookie is absent or its value is empty:
  \<open>Invalid{error: 'No session cookie'}\<close>, without any store call. When it has a
  non-empty value, the store is asked once, under that value: no record gives
  \<open>Invalid{error: 'Session not found'}\<close>, a throwing lookup gives
  \<open>Invalid{error: 'Session store error'}\<close>, and a record is passed on as it is.
  Repeating the call gives the same session value, for a store whose \<open>get\<close> leaves the
  store as it was.
\<close>

theorem livemode_session_resolution:
  assumes "mode options = Livemode"
  shows
   "(getCookie c (session_cookie_name options) = None
       \<or> getCookie c (session_cookie_name options) = Some [] \<longrightarrow>
       sessionMiddleware c options st
         = \<lparr>returned = Returned (Invalid (Some ''No session cookie'')),
            store_after = st, calls = []\<rparr>)
    \<and> (\<forall>sid. getCookie c (session_cookie_name options) = Some sid \<and> sid \<noteq> [] \<longrightarrow>
          calls (sessionMiddleware c options st) = [CallGet (JStr sid)]
          \<and> (\<forall>st'. store_get (sessionStore options) (JStr sid) st = (Returned None, st') \<longrightarrow>
                returned (sessionMiddleware c options st)
                  = Returned (Invalid (Some ''Session not found'')))
          \<and> (\<forall>err st'. store_get (sessionStore options) (JStr sid) st = (Threw err, st') \<longrightarrow>
                returned (sessionMiddleware c options st)
                  = Returned (Invalid (Some ''Session store error'')))
          \<and> (\<forall>r st'. store_get (sessionStore options) (JStr sid) st = (Returned (Some r), st') \<longrightarrow>
                returned (sessionMiddleware c options st) = Returned r))
    \<and> ((\<forall>k. snd (store_get (sessionStore options) k st) = st) \<longrightarrow>
          returned (sessionMiddleware c options (store_after (sessionMiddleware c options st)))
            = returned (sessionMiddleware c options st))"
proof -
  have m: "sessionMiddleware c options s = livemode_sessionMiddlewareImpl c options s" for s
    using assms by (simp add: sessionMiddleware_def)
  have a: "getCookie c (session_cookie_name options) = None
       \<or> getCookie c (session_cookie_name options) = Some [] \<longrightarrow>
       livemode_sessionMiddlewareImpl c options st
         = \<lparr>returned = Returned (Invalid (Some ''No session cookie'')),
            store_after = st, calls = []\<rparr>"
    by (auto simp: livemode_sessionMiddlewareImpl_def session_cookie_name_def Let_def)
  have b: "\<forall>sid. getCookie c (session_cookie_name options) = Some sid \<and> sid \<noteq> [] \<longrightarrow>
          calls (livemode_sessionMiddlewareImpl c options st) = [CallGet (JStr sid)]
          \<and> (\<forall>st'. store_get (sessionStore options) (JStr sid) st = (Returned None, st') \<longrightarrow>
                returned (livemode_sessionMiddlewareImpl c options st)
                  = Returned (Invalid (Some ''Session not found'')))
          \<and> (\<forall>err st'. store_get (sessionStore options) (JStr sid) st = (Threw err, st') \<longrightarrow>
                returned (livemode_sessionMiddlewareImpl c options st)
                  = Returned (Invalid (Some ''Session store error'')))
          \<and> (\<forall>r st'. store_get (sessionStore options) (JStr sid) st = (Returned (Some r), st') \<longrightarrow>
                returned (livemode_sessionMiddlewareImpl c options st) = Returned r)"
    unfolding livemode_sessionMiddlewareImpl_def session_cookie_name_def [symmetric]
    by (auto simp: Let_def split: prod.splits outcome.splits option.splits)
  have s: "(\<forall>k. snd (store_get (sessionStore options) k st) = st) \<longrightarrow>
             store_after (livemode_sessionMiddlewareImpl c options st) = st"
    unfolding livemode_sessionMiddlewareImpl_def
    by (auto simp: Let_def split: prod.splits outcome.splits option.splits) (metis snd_conv)+
  show ?thesis
    unfolding m using a b s by auto
qed

theorem livemode_session_resolution_witness:
  "sessionMiddleware (live_request []) (test_options Livemode mapStore) Map.empty
     = \<lparr>returned = Returned (Invalid (Some ''No session cookie'')),
        store_after = Map.empty, calls = []\<rparr>
   \<and> calls (sessionMiddleware (live_request ''invalid-session'')
        (test_options Livemode mapStore) Map.empty) = [CallGet (JStr ''invalid-session'')]
   \<and> returned (sessionMiddleware (live_request ''invalid-session'')
        (test_options Livemode mapStore) Map.empty)
      = Returned (Invalid (Some ''Session not found''))
   \<and> returned (sessionMiddleware (live_request ''error-session-id'')
        (test_options Livemode rejectingStore) Map.empty)
      = Returned (Invalid (Some ''Session store error''))"
proof -
  have m: "mode (test_options Livemode mapStore) = Livemode"
          "mode (test_options Livemode rejectingStore) = Livemode"
    by (simp_all add: test_options_def)
  have n: "session_cookie_name (test_options Livemode mapStore) = ''auth_session_cookie''"
          "session_cookie_name (test_options Livemode rejectingStore) = ''auth_session_cookie''"
    by (simp_all add: test_options_def session_cookie_name_def)
  have g0: "getCookie (live_request []) ''auth_session_cookie'' = Some []"
    by (simp add: live_request_def)
  have g1: "getCookie (live_request ''invalid-session'') ''auth_session_cookie''
              = Some ''invalid-session'' \<and> ''invalid-session'' \<noteq> []"
    by (simp add: live_request_def)
  have g2: "getCookie (live_request ''error-session-id'') ''auth_session_cookie''
              = Some ''error-session-id'' \<and> ''error-session-id'' \<noteq> []"
    by (simp add: live_request_def)
  have s1: "store_get (sessionStore (test_options Livemode mapStore)) (JStr ''invalid-session'')
              Map.empty = (Returned None, Map.empty)"
    by (simp add: test_options_def mapStore_def)
  have s2: "store_get (sessionStore (test_options Livemode rejectingStore))
              (JStr ''error-session-id'') Map.empty = (Threw ''Session store error'', Map.empty)"
    by (simp add: test_options_def rejectingStore_def)
  note T0 = livemode_session_resolution [OF m(1), of "live_request []" Map.empty]
  note T1 = livemode_session_resolution [OF m(1), of "live_request ''invalid-session''" Map.empty]
  note T2 = livemode_session_resolution [OF m(2), of "live_request ''error-session-id''" Map.empty]
  have a0: "sessionMiddleware (live_request []) (test_options Livemode mapStore) Map.empty
     = \<lparr>returned = Returned (Invalid (Some ''No session cookie'')),
        store_after = Map.empty, calls = []\<rparr>"
    using T0 g0 unfolding n by blast
  have a1: "calls (sessionMiddleware (live_request ''invalid-session'')
        (test_options Livemode mapStore) Map.empty) = [CallGet (JStr ''invalid-session'')]
     \<and> returned (sessionMiddleware (live_request ''invalid-session'')
        (test_options Livemode mapStore) Map.empty)
      = Returned (Invalid (Some ''Session not found''))"
    using T1 g1 s1 unfolding n by blast
  have a2: "returned (sessionMiddleware (live_request ''error-session-id'')
        (test_options Livemode rejectingStore) Map.empty)
      = Returned (Invalid (Some ''Session store error''))"
    using T2 g2 s2 unfolding n by blast
  from a0 a1 a2 show ?thesis by blast
qed

text \<open>
  C7 as stated fails: the cookie \<open>auth_session_cookie=\<close> is present with an empty
  value and the store has no record under it, so the claim's case analysis gives
  \<open>Session not found\<close>; the middleware answers \<open>No session cookie\<close> and never asks the
  store.
\<close>

theorem livemode_session_resolution_counterexample:
  "getCookie (live_request []) ''auth_session_cookie'' = Some []
   \<and> fst (store_get mapStore (JStr []) Map.empty) = Returned None
   \<and> returned (sessionMiddleware (live_request []) (test_options Livemode mapStore) Map.empty)
       = Returned (Invalid (Some ''No session cookie''))
   \<and> returned (sessionMiddleware (live_request []) (test_options Livemode mapStore) Map.empty)
       \<noteq> Returned (Invalid (Some ''Session not found''))
   \<and> calls (sessionMiddleware (live_request []) (test_options Livemode mapStore) Map.empty) = []"
  by (simp add: sessionMiddleware_def livemode_sessionMiddlewareImpl_def live_request_def
        test_options_def mapStore_def)

section \<open>The livemode callback\<close>

lemma verifyCredential_fails:
  "fetch w (tokeninfo_url cred) = FetchThrew
     \<or> (\<exists>code json. fetch w (tokeninfo_url cred) = FetchResponse code json
                      \<and> \<not> (200 \<le> code \<and> code \<le> 299))
   \<Longrightarrow> verifyCredential w cred = JNull"
  by (auto simp: verifyCredential_def tokeninfo_url_def)

text \<open>
  C6. In livemode, a callback whose form body was parsed and whose credential fails
  verification (the token-info fetch throws, or answers with a status outside 200..299)
  is answered with the text \<open>Invalid Google Sign-In\<close> and status 200, without cookie;
  the handler makes no store call (so \<open>put\<close> is not invoked) and the store is as it was.
\<close>

theorem livemode_callback_invalid:
  assumes "mode options = Livemode" and "req_parseBody c = Returned data"
    and "fetch w (tokeninfo_url (form_credential data)) = FetchThrew
         \<or> (\<exists>code json. fetch w (tokeninfo_url (form_credential data)) = FetchResponse code json
                          \<and> \<not> (200 \<le> code \<and> code \<le> 299))"
  shows "route_callback w c options st
           = \<lparr>returned = Returned \<lparr>status = 200, body = TextBody ''Invalid Google Sign-In'',
                                     location = None, set_cookie = None\<rparr>,
              store_after = st, calls = []\<rparr>"
proof -
  have v: "verifyCredential w (form_credential data) = JNull"
    using assms(3) by (rule verifyCredential_fails)
  have "livemode_callbackImpl w c options st
           = \<lparr>returned = Returned (c_text None ''Invalid Google Sign-In''),
              store_after = st, calls = []\<rparr>"
    unfolding livemode_callbackImpl_def form_credential_def [symmetric]
    using assms(2) v by (simp add: Let_def)
  then show ?thesis
    using assms(1) by (simp add: route_callback_def c_text_def)
qed

theorem livemode_callback_invalid_witness:
  "route_callback (tokeninfo_platform (FetchResponse 400 (Returned JNull)))
       (callback_request ''invalid-token'') (test_options Livemode mapStore) Map.empty
     = \<lparr>returned = Returned \<lparr>status = 200, body = TextBody ''Invalid Google Sign-In'',
                               location = None, set_cookie = None\<rparr>,
        store_after = Map.empty, calls = []\<rparr>
   \<and> route_callback (tokeninfo_platform FetchThrew)
       (callback_request ''some-token'') (test_options Livemode mapStore) Map.empty
     = \<lparr>returned = Returned \<lparr>status = 200, body = TextBody ''Invalid Google Sign-In'',
                               location = None, set_cookie = None\<rparr>,
        store_after = Map.empty, calls = []\<rparr>"
proof -
  have m: "mode (test_options Livemode mapStore) = Livemode"
    by (simp add: test_options_def)
  have p1: "req_parseBody (callback_request ''invalid-token'')
              = Returned [(''credential'', JStr ''invalid-token'')]"
   and p2: "req_parseBody (callback_request ''some-token'')
              = Returned [(''credential'', JStr ''some-token'')]"
    by (simp_all add: callback_request_def)
  have f1: "fetch (tokeninfo_platform (FetchResponse 400 (Returned JNull)))
              (tokeninfo_url (form_credential [(''credential'', JStr ''invalid-token'')])) = FetchThrew
         \<or> (\<exists>code json. fetch (tokeninfo_platform (FetchResponse 400 (Returned JNull)))
              (tokeninfo_url (form_credential [(''credential'', JStr ''invalid-token'')]))
                = FetchResponse code json \<and> \<not> (200 \<le> code \<and> code \<le> 299))"
    by (simp add: tokeninfo_platform_def)
  have f2: "fetch (tokeninfo_platform FetchThrew)
              (tokeninfo_url (form_credential [(''credential'', JStr ''some-token'')])) = FetchThrew
         \<or> (\<exists>code json. fetch (tokeninfo_platform FetchThrew)
              (tokeninfo_url (form_credential [(''credential'', JStr ''some-token'')]))
                = FetchResponse code json \<and> \<not> (200 \<le> code \<and> code \<le> 299))"
    by (simp add: tokeninfo_platform_def)
  show ?thesis
    using livemode_callback_invalid [OF m p1 f1, of Map.empty]
          livemode_callback_invalid [OF m p2 f2, of Map.empty]
    by blast
qed

section \<open>Sign-out and the store\<close>

text \<open>
  C4 (as amended). Every sign-out request is answered with a redirect to \<open>/\<close>, in both
  modes and whatever the store does. In testmode the store's \<open>delete\<close>, when the store
  has one, is called once, under the resolved session id, and its failure is ignored.
  In livemode sign-out makes no store call and leaves the store as it was: it only
  overwrites the session cookie with an empty value and Max-Age 0.
\<close>

theorem signout_store_effect:
  "(\<exists>hdr. returned (route_signout c options st)
            = Returned \<lparr>status = 302, body = NoBody, location = Some ''/'', set_cookie = hdr\<rparr>)
   \<and> (mode options = Testmode \<longrightarrow>
        calls (route_signout c options st)
          = (if store_delete (sessionStore options) = None then []
             else [CallDelete (resolved_session_id (cookie_header c))]))
   \<and> (mode options = Livemode \<longrightarrow>
        calls (route_signout c options st) = []
        \<and> store_after (route_signout c options st) = st
        \<and> (\<exists>ck. maxAge ck = 0 \<and> httpOnly ck \<and>
              returned (route_signout c options st)
                = Returned \<lparr>status = 302, body = NoBody, location = Some ''/'',
                     set_cookie = Some (HonoSetCookie (session_cookie_name options) [] ck)\<rparr>))"
proof (intro conjI impI)
  show "\<exists>hdr. returned (route_signout c options st)
            = Returned \<lparr>status = 302, body = NoBody, location = Some ''/'', set_cookie = hdr\<rparr>"
    by (simp add: route_signout_def testmode_signoutImpl_def livemode_signoutImpl_def
          c_redirect_def Let_def split: prod.splits outcome.splits option.splits)
next
  assume "mode options = Testmode"
  then show "calls (route_signout c options st)
          = (if store_delete (sessionStore options) = None then []
             else [CallDelete (resolved_session_id (cookie_header c))])"
    by (simp add: route_signout_def testmode_signout_calls)
next
  assume l: "mode options = Livemode"
  then show "calls (route_signout c options st) = []"
    by (simp add: route_signout_def livemode_signoutImpl_def Let_def)
  from l show "store_after (route_signout c options st) = st"
    by (simp add: route_signout_def livemode_signoutImpl_def Let_def)
  from l show "\<exists>ck. maxAge ck = 0 \<and> httpOnly ck \<and>
              returned (route_signout c options st)
                = Returned \<lparr>status = 302, body = NoBody, location = Some ''/'',
                     set_cookie = Some (HonoSetCookie (session_cookie_name options) [] ck)\<rparr>"
    by (simp add: route_signout_def livemode_signoutImpl_def Let_def c_redirect_def
          session_cookie_name_def)
qed

theorem signout_store_effect_witness:
  "calls (route_signout (test_request (Some ''testmode-session-id=session-to-signout''))
       (test_options Testmode mapStore) Map.empty)
     = [CallDelete (JStr ''session-to-signout'')]
   \<and> calls (route_signout (live_request ''abc'') (test_options Livemode mapStore) Map.empty) = []
   \<and> store_after (route_signout (live_request ''abc'') (test_options Livemode mapStore) Map.empty)
     = Map.empty"
proof -
  have m: "mode (test_options Testmode mapStore) = Testmode"
          "mode (test_options Livemode mapStore) = Livemode"
    by (simp_all add: test_options_def)
  have d: "store_delete (sessionStore (test_options Testmode mapStore)) \<noteq> None"
    by (simp add: test_options_def mapStore_def)
  have r: "resolved_session_id (cookie_header
             (test_request (Some ''testmode-session-id=session-to-signout'')))
           = JStr ''session-to-signout''"
    by code_simp
  from signout_store_effect
         [of "test_request (Some ''testmode-session-id=session-to-signout'')"
             "test_options Testmode mapStore" Map.empty] m(1) d r
  have a: "calls (route_signout (test_request (Some ''testmode-session-id=session-to-signout''))
       (test_options Testmode mapStore) Map.empty)
     = [CallDelete (JStr ''session-to-signout'')]" by simp
  from signout_store_effect
         [of "live_request ''abc''" "test_options Livemode mapStore" Map.empty] m(2)
  have b: "calls (route_signout (live_request ''abc'') (test_options Livemode mapStore) Map.empty) = []
   \<and> store_after (route_signout (live_request ''abc'') (test_options Livemode mapStore) Map.empty)
     = Map.empty" by blast
  from a b show ?thesis by blast
qed

text \<open>With the in-memory store, testmode sign-out removes the record of the resolved id.\<close>

lemma testmode_signout_mapStore:
  "sessionStore options = mapStore \<Longrightarrow>
     store_after (testmode_signoutImpl c options st)
       = st(resolved_session_id (cookie_header c) := None)"
  unfolding testmode_signoutImpl_def resolve_inline
  by (simp add: mapStore_def Let_def)

text \<open>
  C4 as stated fails: in livemode the record of the current session is still in the
  store after sign-out; the handler never calls the store.
\<close>

theorem signout_store_effect_counterexample:
  "fst (store_get mapStore (JStr ''abc'')
     (store_after (route_signout (live_request ''abc'') (test_options Livemode mapStore)
        (Map.empty(JStr ''abc'' \<mapsto>
           Valid (JStr ''abc'') (JStr ''User'') (JStr ''user@example.com'') (JStr ''token''))))))
     = Returned (Some (Valid (JStr ''abc'') (JStr ''User'') (JStr ''user@example.com'')
         (JStr ''token'')))
   \<and> calls (route_signout (live_request ''abc'') (test_options Livemode mapStore)
        (Map.empty(JStr ''abc'' \<mapsto>
           Valid (JStr ''abc'') (JStr ''User'') (JStr ''user@example.com'') (JStr ''token''))))
     = []"
  by (simp add: route_signout_def livemode_signoutImpl_def test_options_def mapStore_def Let_def)

section \<open>Exceptions that leave a handler\<close>

text \<open>
  C3: in livemode, render-signin awaits \<open>sessionStore.get\<close> and handle-callback awaits
  \<open>sessionStore.put\<close> outside any \<open>try\<close>: with a store that rejects, the exception
  leaves the handler.
\<close>

theorem livemode_store_exception_propagates:
  "returned (route_signin test_platform (live_request ''error-session-id'')
       (test_options Livemode rejectingStore) Map.empty)
     = Threw ''Session store error''
   \<and> returned (route_callback
        (tokeninfo_platform (FetchResponse 200
           (Returned (JObj [(''name'', JStr ''User''), (''email'', JStr ''user@example.com'')]))))
        (callback_request ''valid-token'') (test_options Livemode rejectingStore) Map.empty)
     = Threw ''Session store error''"
  by (simp add: route_signin_def route_callback_def livemode_signinImpl_def
        livemode_callbackImpl_def verifyCredential_def live_request_def callback_request_def
        tokeninfo_platform_def test_options_def rejectingStore_def Let_def)

text \<open>The operations that do catch every store failure.\<close>

lemma catching_operations:
  "returned (testmode_sessionMiddlewareImpl c options st) \<noteq> Threw err"
  "returned (livemode_sessionMiddlewareImpl c options st) \<noteq> Threw err"
  "returned (testmode_signinImpl w c options st) \<noteq> Threw err"
  "returned (testmode_callbackImpl c options st) \<noteq> Threw err"
  "returned (testmode_signoutImpl c options st) \<noteq> Threw err"
  "returned (livemode_signoutImpl c options st) \<noteq> Threw err"
  by (simp_all add: testmode_sessionMiddlewareImpl_def livemode_sessionMiddlewareImpl_def
        testmode_signinImpl_def testmode_callbackImpl_def testmode_signoutImpl_def
        livemode_signoutImpl_def Let_def split: prod.splits outcome.splits option.splits)

section \<open>Facts about the scoping cookie that test sign-in sets\<close>



lemma header_value_ok_scoping:
  "header_value_ok (''testmode-session-id='' @ s @ ''; Path=/; SameSite=Lax'') = header_value_ok s"
proof -
  have p: "header_value_ok ''testmode-session-id=''" and t: "header_value_ok ''; Path=/; SameSite=Lax''"
    by (simp_all add: header_value_ok_def)
  have h: "header_value_ok (x @ y) = (header_value_ok x \<and> header_value_ok y)" for x y
    unfolding header_value_ok_def set_append Un_iff by blast
  show ?thesis by (simp only: h p t simp_thms)
qed


















section \<open>Round trip of the scoping cookie\<close>




section \<open>Test sign-in\<close>





end
